theory Spec2Isabelle
  imports Main "HOL-Library.AList" "HOL-Library.Sublist"
begin

section \<open>Python values\<close>

text \<open>
  The handler receives a decoded JSON document, so the values of the model are the
  ones such a document holds: \<open>None\<close>, booleans, integers, strings, lists and
  dictionaries. Floating-point numbers are left out of the model. Strings are
  \<open>string\<close>, integers are unbounded.

  A dictionary is the list of its items in insertion order; a key is read through
  \<open>map_of\<close>. Dictionary keys are hashable values only. Python identifies the keys
  \<open>True\<close> and \<open>1\<close> (and \<open>False\<close> and \<open>0\<close>), which \<open>hash_key\<close> does as well;
  hashing a list or a dictionary raises \<open>TypeError\<close>.
\<close>

datatype pykey = KNone | KInt int | KStr string

datatype pyval =
    PNone
  | PBool bool
  | PInt int
  | PStr string
  | PList "pyval list"
  | PDict "(pykey \<times> pyval) list"

type_synonym pydict = "(pykey \<times> pyval) list"

text \<open>
  The exceptions the program can raise. \<open>KeyError\<close> carries the missing key (always one
  of the string literals of the source), \<open>ValueError\<close> its message.
\<close>

datatype py_error = KeyError string | ValueError string | TypeError | AttributeError

definition bind_result :: "'e + 'a \<Rightarrow> ('a \<Rightarrow> 'e + 'b) \<Rightarrow> 'e + 'b" where
  "bind_result m f = (case m of Inl e \<Rightarrow> Inl e | Inr x \<Rightarrow> f x)"

fun hash_key :: "pyval \<Rightarrow> py_error + pykey" where
  "hash_key PNone = Inr KNone"
| "hash_key (PBool b) = Inr (KInt (if b then 1 else 0))"
| "hash_key (PInt i) = Inr (KInt i)"
| "hash_key (PStr s) = Inr (KStr s)"
| "hash_key (PList xs) = Inl TypeError"
| "hash_key (PDict d) = Inl TypeError"

text \<open>Truth value testing, as \<open>not x\<close> and \<open>if x:\<close> do it.\<close>

fun truthy :: "pyval \<Rightarrow> bool" where
  "truthy PNone = False"
| "truthy (PBool b) = b"
| "truthy (PInt i) = (i \<noteq> 0)"
| "truthy (PStr s) = (s \<noteq> [])"
| "truthy (PList xs) = (xs \<noteq> [])"
| "truthy (PDict d) = (d \<noteq> [])"

text \<open>
  \<open>str(v)\<close>, which an f-string applies to each value it interpolates. A string is
  rendered as itself. How Python renders the other values is not part of this
  repository, so their rendering is a parameter \<open>fmt\<close> of every function that formats
  a value.
\<close>

definition py_str :: "(pyval \<Rightarrow> string) \<Rightarrow> pyval \<Rightarrow> string" where
  "py_str fmt v = (case v of PStr s \<Rightarrow> s | _ \<Rightarrow> fmt v)"

text \<open>
  A fixed rendering, for evaluating the model on concrete events. No theorem depends
  on which rendering it is.
\<close>

definition sample_fmt :: "pyval \<Rightarrow> string" where
  "sample_fmt v = ''<object>''"

text \<open>
  \<open>str(e)\<close> of a \<open>KeyError\<close> is the \<open>repr\<close> of the key. Every key the program
  looks up by subscript is a literal of the source made of letters only, whose \<open>repr\<close>
  is the key in single quotes.
\<close>

definition str_KeyError :: "string \<Rightarrow> string" where
  "str_KeyError k = [CHR 0x27] @ k @ [CHR 0x27]"

text \<open>\<open>sep.join(xs)\<close>\<close>

fun join :: "string \<Rightarrow> string list \<Rightarrow> string" where
  "join sep [] = []"
| "join sep [x] = x"
| "join sep (x # y # ys) = x @ sep @ join sep (y # ys)"

subsection \<open>Dictionary operations with a string key\<close>

text \<open>\<open>k in d\<close>, \<open>d.get(k, default)\<close> and \<open>d[k]\<close> on a dictionary.\<close>

definition dict_has :: "pydict \<Rightarrow> string \<Rightarrow> bool" where
  "dict_has d k = (map_of d (KStr k) \<noteq> None)"

definition dict_get :: "pydict \<Rightarrow> string \<Rightarrow> pyval \<Rightarrow> pyval" where
  "dict_get d k dflt = (case map_of d (KStr k) of None \<Rightarrow> dflt | Some v \<Rightarrow> v)"

definition dict_item :: "pydict \<Rightarrow> string \<Rightarrow> py_error + pyval" where
  "dict_item d k = (case map_of d (KStr k) of None \<Rightarrow> Inl (KeyError k) | Some v \<Rightarrow> Inr v)"

text \<open>
  \<open>result[n] = v\<close>: the key is hashed first; an existing key keeps its place, a new
  one is appended.
\<close>

definition dict_store :: "pydict \<Rightarrow> pyval \<Rightarrow> pyval \<Rightarrow> py_error + pydict" where
  "dict_store result n v =
     (case hash_key n of Inl e \<Rightarrow> Inl e | Inr k \<Rightarrow> Inr (AList.update k v result))"

text \<open>
  \<open>event[k]\<close> and \<open>event.get(k, default)\<close> on any value: only a dictionary has them
  for a string key. Subscripting a list or a string with a string, or a value with no
  subscript at all, raises \<open>TypeError\<close>; a value with no method \<open>get\<close> raises
  \<open>AttributeError\<close>.
\<close>

fun subscript :: "pyval \<Rightarrow> string \<Rightarrow> py_error + pyval" where
  "subscript (PDict d) k = dict_item d k"
| "subscript PNone k = Inl TypeError"
| "subscript (PBool b) k = Inl TypeError"
| "subscript (PInt i) k = Inl TypeError"
| "subscript (PStr s) k = Inl TypeError"
| "subscript (PList xs) k = Inl TypeError"

fun get_method :: "pyval \<Rightarrow> string \<Rightarrow> pyval \<Rightarrow> py_error + pyval" where
  "get_method (PDict d) k dflt = Inr (dict_get d k dflt)"
| "get_method PNone k dflt = Inl AttributeError"
| "get_method (PBool b) k dflt = Inl AttributeError"
| "get_method (PInt i) k dflt = Inl AttributeError"
| "get_method (PStr s) k dflt = Inl AttributeError"
| "get_method (PList xs) k dflt = Inl AttributeError"

section \<open>The program\<close>

text \<open>
  Logging is left out of the model: the logger is a side channel, its calls return
  nothing the program reads, and every value they format is formatted without error.
\<close>

subsection \<open>SupportedFunctions\<close>

datatype SupportedFunctions = FIND_BAGGAGE | CHECK_FLIGHT_STATUS | BOOK_FLIGHT | CANCEL_RESERVATION

fun enum_value :: "SupportedFunctions \<Rightarrow> string" where
  "enum_value FIND_BAGGAGE = ''find_baggage''"
| "enum_value CHECK_FLIGHT_STATUS = ''check_flight_status''"
| "enum_value BOOK_FLIGHT = ''book_flight''"
| "enum_value CANCEL_RESERVATION = ''cancel_reservation''"

text \<open>Iterating over the enumeration yields its members in declaration order.\<close>

definition enum_members :: "SupportedFunctions list" where
  "enum_members = [FIND_BAGGAGE, CHECK_FLIGHT_STATUS, BOOK_FLIGHT, CANCEL_RESERVATION]"

subsection \<open>extract_parameters\<close>

text \<open>
  The loop over the items, with the dictionary built so far. In
  \<open>result[item['name']] = item['value']\<close> the right-hand side is evaluated first, then
  the key, then the store.
\<close>

fun extract_loop :: "pydict \<Rightarrow> pyval list \<Rightarrow> py_error + pydict" where
  "extract_loop result [] = Inr result"
| "extract_loop result (PDict d # items) =
     (if dict_has d ''name'' \<and> dict_has d ''value'' then
        bind_result (dict_item d ''value'') (\<lambda>v.
        bind_result (dict_item d ''name'') (\<lambda>n.
        bind_result (dict_store result n v) (\<lambda>result'.
        extract_loop result' items)))
      else extract_loop result items)"
| "extract_loop result (item # items) = extract_loop result items"

fun extract_parameters :: "pyval \<Rightarrow> py_error + pydict" where
  "extract_parameters (PList items) = extract_loop [] items"
| "extract_parameters v = Inr []"

subsection \<open>validate_required_params\<close>

definition validate_required_params :: "pydict \<Rightarrow> string list \<Rightarrow> py_error + unit" where
  "validate_required_params params required =
     (let missing = filter (\<lambda>param. \<not> truthy (dict_get params param PNone)) required
      in if missing \<noteq> []
         then Inl (ValueError (''Missing required parameters: '' @ join '', '' missing))
         else Inr ())"

subsection \<open>create_response\<close>

definition create_response :: "pyval \<Rightarrow> pyval \<Rightarrow> pyval \<Rightarrow> pyval" where
  "create_response action_group function body =
     PDict [
       (KStr ''response'', PDict [
          (KStr ''actionGroup'', action_group),
          (KStr ''function'', function),
          (KStr ''functionResponse'', PDict [
             (KStr ''responseBody'', PDict [
                (KStr ''TEXT'', PDict [
                   (KStr ''body'', body)])])])]),
       (KStr ''messageVersion'', PInt 1)]"

subsection \<open>The four operations\<close>

definition find_baggage :: "(pyval \<Rightarrow> string) \<Rightarrow> pyval \<Rightarrow> pyval \<Rightarrow> string" where
  "find_baggage fmt flight_number phone_number =
     ''Found baggage information for flight '' @ py_str fmt flight_number @ ''. '' @
     ''Your baggage is currently at baggage claim area B. '' @
     ''Contact number on file: '' @ py_str fmt phone_number"

definition check_flight_status :: "(pyval \<Rightarrow> string) \<Rightarrow> pyval \<Rightarrow> string" where
  "check_flight_status fmt flight_number =
     ''Flight '' @ py_str fmt flight_number @ '' is currently on time. '' @
     ''Departure: 3:30 PM, Arrival: 6:45 PM, Gate: A12''"

definition book_flight ::
  "(pyval \<Rightarrow> string) \<Rightarrow> pyval \<Rightarrow> pyval \<Rightarrow> pyval \<Rightarrow> pyval \<Rightarrow> pyval \<Rightarrow> string" where
  "book_flight fmt departure_city arrival_city departure_date passenger_name phone_number =
     (let confirmation_code = ''ABC123'' in
      ''Flight booked successfully! '' @
      ''Confirmation code: '' @ confirmation_code @ ''. '' @
      ''Route: '' @ py_str fmt departure_city @ '' to '' @ py_str fmt arrival_city @
      '' on '' @ py_str fmt departure_date @ ''. '' @
      ''Passenger: '' @ py_str fmt passenger_name @ '', Contact: '' @ py_str fmt phone_number)"

definition cancel_reservation :: "(pyval \<Rightarrow> string) \<Rightarrow> pyval \<Rightarrow> pyval \<Rightarrow> string" where
  "cancel_reservation fmt confirmation_code phone_number =
     ''Reservation '' @ py_str fmt confirmation_code @ '' has been successfully canceled. '' @
     ''Refund will be processed to the original payment method within 3-5 business days.''"

subsection \<open>route_function_call\<close>

text \<open>
  \<open>function_name == 'find_baggage'\<close> holds for the string \<open>find_baggage\<close> and for no
  other value.
\<close>

definition route_function_call :: "(pyval \<Rightarrow> string) \<Rightarrow> pyval \<Rightarrow> pydict \<Rightarrow> py_error + string" where
  "route_function_call fmt function_name params =
     (if function_name = PStr (enum_value FIND_BAGGAGE) then
        bind_result (validate_required_params params [''phoneNumber'', ''flightNumber'']) (\<lambda>_.
        bind_result (dict_item params ''flightNumber'') (\<lambda>a1.
        bind_result (dict_item params ''phoneNumber'') (\<lambda>a2.
        Inr (find_baggage fmt a1 a2))))
      else if function_name = PStr (enum_value CHECK_FLIGHT_STATUS) then
        bind_result (validate_required_params params [''flightNumber'']) (\<lambda>_.
        bind_result (dict_item params ''flightNumber'') (\<lambda>a1.
        Inr (check_flight_status fmt a1)))
      else if function_name = PStr (enum_value BOOK_FLIGHT) then
        bind_result (validate_required_params params
          [''departureCity'', ''arrivalCity'', ''departureDate'',
           ''passengerName'', ''phoneNumber'']) (\<lambda>_.
        bind_result (dict_item params ''departureCity'') (\<lambda>a1.
        bind_result (dict_item params ''arrivalCity'') (\<lambda>a2.
        bind_result (dict_item params ''departureDate'') (\<lambda>a3.
        bind_result (dict_item params ''passengerName'') (\<lambda>a4.
        bind_result (dict_item params ''phoneNumber'') (\<lambda>a5.
        Inr (book_flight fmt a1 a2 a3 a4 a5)))))))
      else if function_name = PStr (enum_value CANCEL_RESERVATION) then
        bind_result (validate_required_params params [''confirmationCode'', ''phoneNumber'']) (\<lambda>_.
        bind_result (dict_item params ''confirmationCode'') (\<lambda>a1.
        bind_result (dict_item params ''phoneNumber'') (\<lambda>a2.
        Inr (cancel_reservation fmt a1 a2))))
      else
        (let supported = map enum_value enum_members in
         Inl (ValueError (''Unsupported function: '' @ py_str fmt function_name @
                ''. Supported: '' @ join '', '' supported))))"

subsection \<open>lambda_handler\<close>

text \<open>The body of the \<open>try\<close> block.\<close>

definition handler_try :: "(pyval \<Rightarrow> string) \<Rightarrow> pyval \<Rightarrow> py_error + pyval" where
  "handler_try fmt event =
     bind_result (subscript event ''actionGroup'') (\<lambda>action_group.
     bind_result (subscript event ''function'') (\<lambda>function_name.
     bind_result (get_method event ''parameters'' (PList [])) (\<lambda>parameters.
     bind_result (subscript event ''agent'') (\<lambda>agent.
     bind_result (extract_parameters parameters) (\<lambda>params.
     bind_result (route_function_call fmt function_name params) (\<lambda>result_body.
     Inr (create_response action_group function_name (PStr result_body))))))))"

text \<open>
  The \<open>return create_response(event.get(...), event.get(...), error_msg)\<close> that ends
  each of the three \<open>except\<close> clauses. An exception raised here is not caught.
\<close>

definition error_response :: "pyval \<Rightarrow> string \<Rightarrow> py_error + pyval" where
  "error_response event error_msg =
     bind_result (get_method event ''actionGroup'' (PStr ''unknown'')) (\<lambda>action_group.
     bind_result (get_method event ''function'' (PStr ''unknown'')) (\<lambda>function_name.
     Inr (create_response action_group function_name (PStr error_msg))))"

text \<open>
  The three \<open>except\<close> clauses in their order: \<open>KeyError\<close>, \<open>ValueError\<close>, then every
  other \<open>Exception\<close>. The context argument is never read.
\<close>

definition lambda_handler :: "(pyval \<Rightarrow> string) \<Rightarrow> pyval \<Rightarrow> 'ctx \<Rightarrow> py_error + pyval" where
  "lambda_handler fmt event context =
     (case handler_try fmt event of
        Inr response \<Rightarrow> Inr response
      | Inl (KeyError k) \<Rightarrow>
          error_response event
            (''Missing required field: '' @ str_KeyError k @ ''. Please contact IT support.'')
      | Inl (ValueError msg) \<Rightarrow>
          error_response event
            (''Validation error: '' @ msg @ ''. Please check your input and try again.'')
      | Inl TypeError \<Rightarrow>
          error_response event ''An unexpected error occurred. Please contact IT support.''
      | Inl AttributeError \<Rightarrow>
          error_response event ''An unexpected error occurred. Please contact IT support.'')"

section \<open>Notions of the specification\<close>

text \<open>
  A required key is offending in a parameter map when it is absent from the map or
  maps to a falsy value.
\<close>

definition offending :: "pydict \<Rightarrow> string \<Rightarrow> bool" where
  "offending params k =
     (case map_of params (KStr k) of None \<Rightarrow> True | Some v \<Rightarrow> \<not> truthy v)"

text \<open>
  The name and the value of an item that is a dictionary holding both keys, \<open>None\<close> for
  any other item.
\<close>

definition item_pair :: "pyval \<Rightarrow> (pyval \<times> pyval) option" where
  "item_pair item =
     (case item of
        PDict d \<Rightarrow>
          (case map_of d (KStr ''name'') of
             None \<Rightarrow> None
           | Some n \<Rightarrow>
               (case map_of d (KStr ''value'') of None \<Rightarrow> None | Some v \<Rightarrow> Some (n, v)))
      | _ \<Rightarrow> None)"

text \<open>
  An item passes the shape check but its name cannot be hashed, so it cannot be a key
  of the result.
\<close>

definition unhashable_name :: "pyval \<Rightarrow> bool" where
  "unhashable_name item =
     (case item_pair item of
        None \<Rightarrow> False
      | Some (n, v) \<Rightarrow> (case hash_key n of Inl e \<Rightarrow> True | Inr k \<Rightarrow> False))"

text \<open>
  The entry an item contributes to the parameter map: one pair for an item that passes
  the shape check (with a name that can be a key), none for any other item. The entries
  of a list of items are taken in the order of the items.
\<close>

definition entry :: "pyval \<Rightarrow> (pykey \<times> pyval) list" where
  "entry item =
     (case item_pair item of
        None \<Rightarrow> []
      | Some (n, v) \<Rightarrow> (case hash_key n of Inl e \<Rightarrow> [] | Inr k \<Rightarrow> [(k, v)]))"

definition entries :: "pyval list \<Rightarrow> (pykey \<times> pyval) list" where
  "entries items = concat (map entry items)"

text \<open>
  Setting \<open>result[k] = v\<close> for each entry in order.
\<close>

definition store_all :: "(pykey \<times> pyval) list \<Rightarrow> pydict \<Rightarrow> pydict" where
  "store_all es result = fold (\<lambda>(k, v). AList.update k v) es result"

text \<open>
  The three bodies of the error taxonomy, by the kind of the exception caught.
\<close>

definition error_body :: "py_error \<Rightarrow> string" where
  "error_body e =
     (case e of
        KeyError k \<Rightarrow> ''Missing required field: '' @ str_KeyError k @ ''. Please contact IT support.''
      | ValueError msg \<Rightarrow> ''Validation error: '' @ msg @ ''. Please check your input and try again.''
      | TypeError \<Rightarrow> ''An unexpected error occurred. Please contact IT support.''
      | AttributeError \<Rightarrow> ''An unexpected error occurred. Please contact IT support.'')"

text \<open>
  Steps 1 to 3 of the entry point on an event that is a mapping with items \<open>d\<close>: the
  three required fields, the parameter map of the optional field \<open>parameters\<close>, and
  the router. The result is the text of the operation, or the first failure.
\<close>

definition handler_steps :: "(pyval \<Rightarrow> string) \<Rightarrow> pydict \<Rightarrow> py_error + string" where
  "handler_steps fmt d =
     bind_result (dict_item d ''actionGroup'') (\<lambda>action_group.
     bind_result (dict_item d ''function'') (\<lambda>function_name.
     bind_result (dict_item d ''agent'') (\<lambda>agent.
     bind_result (extract_parameters (dict_get d ''parameters'' (PList []))) (\<lambda>params.
     route_function_call fmt function_name params))))"

text \<open>
  The envelope for a body, with the action group and the function read from the event
  and \<open>unknown\<close> where the event has none.
\<close>

definition mirrored :: "pydict \<Rightarrow> string \<Rightarrow> pyval" where
  "mirrored d body =
     create_response (dict_get d ''actionGroup'' (PStr ''unknown''))
       (dict_get d ''function'' (PStr ''unknown'')) (PStr body)"

text \<open>
  Reading a value through a path of keys, one subscript after the other.
\<close>

fun get_path :: "pyval \<Rightarrow> string list \<Rightarrow> py_error + pyval" where
  "get_path v [] = Inr v"
| "get_path v (k # ks) = bind_result (subscript v k) (\<lambda>v'. get_path v' ks)"

section \<open>Basic facts\<close>

lemma bind_result_simps [simp]:
  "bind_result (Inl e) f = Inl e"
  "bind_result (Inr x) f = f x"
  by (simp_all add: bind_result_def)

lemma offending_get: "(\<not> truthy (dict_get params k PNone)) = offending params k"
  by (simp add: offending_def dict_get_def split: option.splits)

lemma offending_filter:
  "filter (\<lambda>param. \<not> truthy (dict_get params param PNone)) required =
   filter (offending params) required"
  by (simp add: offending_get)

lemma validate_required_params_cases:
  "validate_required_params params required =
     (if \<exists>k \<in> set required. offending params k
      then Inl (ValueError (''Missing required parameters: '' @
                  join '', '' (filter (offending params) required)))
      else Inr ())"
  by (simp add: validate_required_params_def offending_filter filter_empty_conv)

lemma validate_Inl:
  "validate_required_params params required = Inl e \<Longrightarrow> \<exists>msg. e = ValueError msg"
  by (auto simp: validate_required_params_cases split: if_splits)

lemma not_offending_item:
  "\<not> offending params k \<Longrightarrow>
   \<exists>v. dict_item params k = Inr v \<and> map_of params (KStr k) = Some v \<and> truthy v"
  by (auto simp: offending_def dict_item_def split: option.splits)

lemma hash_key_error: "hash_key n = Inl e \<Longrightarrow> e = TypeError"
  by (cases n) simp_all

lemma store_all_simps [simp]:
  "store_all [] result = result"
  "store_all ((k, v) # es) result = store_all es (AList.update k v result)"
  "store_all (es @ es') result = store_all es' (store_all es result)"
  by (simp_all add: store_all_def)

lemma extract_loop_step:
  "extract_loop result (item # items) =
     (if unhashable_name item then Inl TypeError
      else extract_loop (store_all (entry item) result) items)"
proof (cases item)
  case (PDict d)
  then show ?thesis
    by (auto simp: dict_has_def dict_item_def dict_store_def unhashable_name_def entry_def
        item_pair_def split: option.splits sum.splits dest: hash_key_error)
qed (simp_all add: unhashable_name_def entry_def item_pair_def)

lemma extract_loop_cases:
  "extract_loop result items =
     (if \<exists>item \<in> set items. unhashable_name item then Inl TypeError
      else Inr (store_all (entries items) result))"
proof (induction items arbitrary: result)
  case Nil
  show ?case by (simp add: entries_def)
next
  case (Cons item items)
  show ?case
    unfolding extract_loop_step
    by (simp add: Cons.IH entries_def)
qed

lemma map_of_store_all: "map_of (store_all es result) = map_of result ++ map_of (rev es)"
proof (induction es arbitrary: result)
  case Nil
  show ?case by simp
next
  case (Cons e es)
  obtain k v where e: "e = (k, v)" by (cases e)
  show ?case
    by (simp add: e Cons.IH update_conv' map_add_upd_left fun_eq_iff map_add_def split: option.splits)
qed

lemma distinct_store_all:
  "distinct (map fst result) \<Longrightarrow> distinct (map fst (store_all es result))"
  by (induction es arbitrary: result) (auto simp: distinct_update)

lemma keys_store_all: "fst ` set (store_all es result) = fst ` set result \<union> fst ` set es"
proof (induction es arbitrary: result)
  case Nil
  show ?case by simp
next
  case (Cons e es)
  obtain k v where e: "e = (k, v)" by (cases e)
  have "fst ` set (store_all (e # es) result) = fst ` set (AList.update k v result) \<union> fst ` set es"
    by (simp add: e Cons.IH)
  also have "\<dots> = fst ` set result \<union> fst ` set (e # es)"
    by (simp add: e dom_update)
  finally show ?case .
qed

lemma dict_item_cases:
  "dict_item d k = (if dict_has d k then Inr (dict_get d k dflt) else Inl (KeyError k))"
  by (auto simp: dict_item_def dict_get_def dict_has_def split: option.splits)

lemma present_truthy: "map_of params (KStr k) = Some v \<Longrightarrow> truthy v \<Longrightarrow> \<not> offending params k"
  by (simp add: offending_def)

lemma present_item: "map_of params (KStr k) = Some v \<Longrightarrow> dict_item params k = Inr v"
  by (simp add: dict_item_def)

lemma error_response_mapping: "error_response (PDict d) msg = Inr (mirrored d msg)"
  by (simp add: error_response_def mirrored_def)

lemma lambda_handler_error:
  "handler_try fmt event = Inl e \<Longrightarrow>
   lambda_handler fmt event ctx = error_response event (error_body e)"
  by (cases e) (simp_all add: lambda_handler_def error_body_def)

lemma lambda_handler_success:
  "handler_try fmt event = Inr r \<Longrightarrow> lambda_handler fmt event ctx = Inr r"
  by (simp add: lambda_handler_def)

lemma handler_try_mapping:
  "handler_try fmt (PDict d) =
     (case handler_steps fmt d of Inl e \<Rightarrow> Inl e | Inr s \<Rightarrow> Inr (mirrored d s))"
  by (simp add: handler_try_def handler_steps_def mirrored_def
      dict_item_cases [where k = "''actionGroup''" and dflt = "PStr ''unknown''"]
      dict_item_cases [where k = "''function''" and dflt = "PStr ''unknown''"]
      dict_item_cases [where k = "''agent''" and dflt = PNone]
      bind_result_def split: sum.splits)

lemma lambda_handler_mapping:
  "lambda_handler fmt (PDict d) ctx =
     Inr (mirrored d (case handler_steps fmt d of Inl e \<Rightarrow> error_body e | Inr s \<Rightarrow> s))"
proof (cases "handler_steps fmt d")
  case (Inl e)
  then have "handler_try fmt (PDict d) = Inl e" by (simp add: handler_try_mapping)
  then show ?thesis by (simp add: lambda_handler_error error_response_mapping Inl)
next
  case (Inr s)
  then have "handler_try fmt (PDict d) = Inr (mirrored d s)" by (simp add: handler_try_mapping)
  then show ?thesis by (simp add: lambda_handler_success Inr)
qed

lemma lambda_handler_not_mapping:
  "\<forall>d. event \<noteq> PDict d \<Longrightarrow> lambda_handler fmt event ctx = Inl AttributeError"
  by (cases event) (simp_all add: lambda_handler_def handler_try_def error_response_def)

lemma handler_steps_missing:
  "filter (\<lambda>k. \<not> dict_has d k) [''actionGroup'', ''function'', ''agent''] = k # ks \<Longrightarrow>
   handler_steps fmt d = Inl (KeyError k)"
  by (auto simp: handler_steps_def dict_item_cases [where dflt = PNone] split: if_splits)

lemma sublist_mid: "s = ps @ xs @ ss \<Longrightarrow> sublist xs s"
  by simp

lemma route_find_baggage:
  "validate_required_params params [''phoneNumber'', ''flightNumber''] = Inr () \<Longrightarrow>
   \<exists>a1 a2. dict_item params ''flightNumber'' = Inr a1 \<and> dict_item params ''phoneNumber'' = Inr a2 \<and>
     route_function_call fmt (PStr ''find_baggage'') params = Inr (find_baggage fmt a1 a2)"
proof -
  assume ok: "validate_required_params params [''phoneNumber'', ''flightNumber''] = Inr ()"
  then have "\<not> offending params ''flightNumber''" "\<not> offending params ''phoneNumber''"
    by (simp_all add: validate_required_params_cases split: if_splits)
  then obtain a1 a2 where "dict_item params ''flightNumber'' = Inr a1"
      "dict_item params ''phoneNumber'' = Inr a2"
    by (blast dest: not_offending_item)
  then show ?thesis by (simp add: route_function_call_def ok)
qed

lemma route_check_flight_status:
  "validate_required_params params [''flightNumber''] = Inr () \<Longrightarrow>
   \<exists>a1. dict_item params ''flightNumber'' = Inr a1 \<and>
     route_function_call fmt (PStr ''check_flight_status'') params = Inr (check_flight_status fmt a1)"
proof -
  assume ok: "validate_required_params params [''flightNumber''] = Inr ()"
  then have "\<not> offending params ''flightNumber''"
    by (simp_all add: validate_required_params_cases split: if_splits)
  then obtain a1 where "dict_item params ''flightNumber'' = Inr a1"
    by (blast dest: not_offending_item)
  then show ?thesis by (simp add: route_function_call_def ok)
qed

lemma route_book_flight:
  "validate_required_params params
     [''departureCity'', ''arrivalCity'', ''departureDate'', ''passengerName'', ''phoneNumber''] = Inr () \<Longrightarrow>
   \<exists>a1 a2 a3 a4 a5.
     dict_item params ''departureCity'' = Inr a1 \<and> dict_item params ''arrivalCity'' = Inr a2 \<and>
     dict_item params ''departureDate'' = Inr a3 \<and> dict_item params ''passengerName'' = Inr a4 \<and>
     dict_item params ''phoneNumber'' = Inr a5 \<and>
     route_function_call fmt (PStr ''book_flight'') params = Inr (book_flight fmt a1 a2 a3 a4 a5)"
proof -
  assume ok: "validate_required_params params
     [''departureCity'', ''arrivalCity'', ''departureDate'', ''passengerName'', ''phoneNumber''] = Inr ()"
  then have "\<not> offending params ''departureCity''" "\<not> offending params ''arrivalCity''"
    "\<not> offending params ''departureDate''" "\<not> offending params ''passengerName''"
    "\<not> offending params ''phoneNumber''"
    by (simp_all add: validate_required_params_cases split: if_splits)
  then obtain a1 a2 a3 a4 a5 where "dict_item params ''departureCity'' = Inr a1"
    "dict_item params ''arrivalCity'' = Inr a2" "dict_item params ''departureDate'' = Inr a3"
    "dict_item params ''passengerName'' = Inr a4" "dict_item params ''phoneNumber'' = Inr a5"
    by (blast dest: not_offending_item)
  then show ?thesis by (simp add: route_function_call_def ok)
qed

lemma route_cancel_reservation:
  "validate_required_params params [''confirmationCode'', ''phoneNumber''] = Inr () \<Longrightarrow>
   \<exists>a1 a2. dict_item params ''confirmationCode'' = Inr a1 \<and> dict_item params ''phoneNumber'' = Inr a2 \<and>
     route_function_call fmt (PStr ''cancel_reservation'') params = Inr (cancel_reservation fmt a1 a2)"
proof -
  assume ok: "validate_required_params params [''confirmationCode'', ''phoneNumber''] = Inr ()"
  then have "\<not> offending params ''confirmationCode''" "\<not> offending params ''phoneNumber''"
    by (simp_all add: validate_required_params_cases split: if_splits)
  then obtain a1 a2 where "dict_item params ''confirmationCode'' = Inr a1"
      "dict_item params ''phoneNumber'' = Inr a2"
    by (blast dest: not_offending_item)
  then show ?thesis by (simp add: route_function_call_def ok)
qed

lemma unit_result: "(r :: py_error + unit) = Inr () \<or> (\<exists>e. r = Inl e)"
  by (cases r) auto

lemma route_never_KeyError: "route_function_call fmt function_name params \<noteq> Inl (KeyError k)"
proof -
  consider (fb) "function_name = PStr ''find_baggage''"
    | (cf) "function_name = PStr ''check_flight_status''"
    | (bf) "function_name = PStr ''book_flight''"
    | (cr) "function_name = PStr ''cancel_reservation''"
    | (other) "function_name \<noteq> PStr ''find_baggage''" "function_name \<noteq> PStr ''check_flight_status''"
        "function_name \<noteq> PStr ''book_flight''" "function_name \<noteq> PStr ''cancel_reservation''"
    by blast
  then show ?thesis
  proof cases
    case fb
    show ?thesis
      using unit_result [of "validate_required_params params [''phoneNumber'', ''flightNumber'']"]
    proof
      assume "validate_required_params params [''phoneNumber'', ''flightNumber''] = Inr ()"
      from route_find_baggage [OF this, of fmt] show ?thesis by (auto simp: fb)
    next
      assume "\<exists>e. validate_required_params params [''phoneNumber'', ''flightNumber''] = Inl e"
      then show ?thesis by (auto simp: fb route_function_call_def dest: validate_Inl)
    qed
  next
    case cf
    show ?thesis
      using unit_result [of "validate_required_params params [''flightNumber'']"]
    proof
      assume "validate_required_params params [''flightNumber''] = Inr ()"
      from route_check_flight_status [OF this, of fmt] show ?thesis by (auto simp: cf)
    next
      assume "\<exists>e. validate_required_params params [''flightNumber''] = Inl e"
      then show ?thesis by (auto simp: cf route_function_call_def dest: validate_Inl)
    qed
  next
    case bf
    show ?thesis
      using unit_result [of "validate_required_params params
        [''departureCity'', ''arrivalCity'', ''departureDate'', ''passengerName'', ''phoneNumber'']"]
    proof
      assume "validate_required_params params
        [''departureCity'', ''arrivalCity'', ''departureDate'', ''passengerName'', ''phoneNumber''] = Inr ()"
      from route_book_flight [OF this, of fmt] show ?thesis by (auto simp: bf)
    next
      assume "\<exists>e. validate_required_params params
        [''departureCity'', ''arrivalCity'', ''departureDate'', ''passengerName'', ''phoneNumber''] = Inl e"
      then show ?thesis by (auto simp: bf route_function_call_def dest: validate_Inl)
    qed
  next
    case cr
    show ?thesis
      using unit_result [of "validate_required_params params [''confirmationCode'', ''phoneNumber'']"]
    proof
      assume "validate_required_params params [''confirmationCode'', ''phoneNumber''] = Inr ()"
      from route_cancel_reservation [OF this, of fmt] show ?thesis by (auto simp: cr)
    next
      assume "\<exists>e. validate_required_params params [''confirmationCode'', ''phoneNumber''] = Inl e"
      then show ?thesis by (auto simp: cr route_function_call_def dest: validate_Inl)
    qed
  next
    case other
    then show ?thesis by (simp add: route_function_call_def)
  qed
qed

lemma book_flight_contains:
  "sublist ''ABC123'' (book_flight fmt a1 a2 a3 a4 a5)"
  "sublist (py_str fmt a1) (book_flight fmt a1 a2 a3 a4 a5)"
  "sublist (py_str fmt a2) (book_flight fmt a1 a2 a3 a4 a5)"
  "sublist (py_str fmt a3) (book_flight fmt a1 a2 a3 a4 a5)"
  "sublist (py_str fmt a4) (book_flight fmt a1 a2 a3 a4 a5)"
  "sublist (py_str fmt a5) (book_flight fmt a1 a2 a3 a4 a5)"
proof -
  let ?s = "book_flight fmt a1 a2 a3 a4 a5"
  show "sublist ''ABC123'' ?s"
    by (rule sublist_mid [where ps = "''Flight booked successfully! Confirmation code: ''"
          and ss = "''. Route: '' @ py_str fmt a1 @ '' to '' @ py_str fmt a2 @ '' on '' @
            py_str fmt a3 @ ''. Passenger: '' @ py_str fmt a4 @ '', Contact: '' @ py_str fmt a5"])
       (simp add: book_flight_def)
  show "sublist (py_str fmt a1) ?s"
    by (rule sublist_mid [where ps = "''Flight booked successfully! Confirmation code: ABC123. Route: ''"
          and ss = "'' to '' @ py_str fmt a2 @ '' on '' @
            py_str fmt a3 @ ''. Passenger: '' @ py_str fmt a4 @ '', Contact: '' @ py_str fmt a5"])
       (simp add: book_flight_def)
  show "sublist (py_str fmt a2) ?s"
    by (rule sublist_mid [where ps = "''Flight booked successfully! Confirmation code: ABC123. Route: '' @
            py_str fmt a1 @ '' to ''"
          and ss = "'' on '' @
            py_str fmt a3 @ ''. Passenger: '' @ py_str fmt a4 @ '', Contact: '' @ py_str fmt a5"])
       (simp add: book_flight_def)
  show "sublist (py_str fmt a3) ?s"
    by (rule sublist_mid [where ps = "''Flight booked successfully! Confirmation code: ABC123. Route: '' @
            py_str fmt a1 @ '' to '' @ py_str fmt a2 @ '' on ''"
          and ss = "''. Passenger: '' @ py_str fmt a4 @ '', Contact: '' @ py_str fmt a5"])
       (simp add: book_flight_def)
  show "sublist (py_str fmt a4) ?s"
    by (rule sublist_mid [where ps = "''Flight booked successfully! Confirmation code: ABC123. Route: '' @
            py_str fmt a1 @ '' to '' @ py_str fmt a2 @ '' on '' @ py_str fmt a3 @ ''. Passenger: ''"
          and ss = "'', Contact: '' @ py_str fmt a5"])
       (simp add: book_flight_def)
  show "sublist (py_str fmt a5) ?s"
    by (rule sublist_mid [where ps = "''Flight booked successfully! Confirmation code: ABC123. Route: '' @
            py_str fmt a1 @ '' to '' @ py_str fmt a2 @ '' on '' @ py_str fmt a3 @ ''. Passenger: '' @
            py_str fmt a4 @ '', Contact: ''"
          and ss = "[]"])
       (simp add: book_flight_def)
qed

section \<open>The parameter extractor\<close>

text \<open>
  C5, as the code has it. For an input that is not a list \<open>extract_parameters\<close> returns
  the empty dictionary and raises nothing. For a list it goes through the items in
  order, sets \<open>result[name] = value\<close> for each item that is a dictionary holding both a
  \<open>name\<close> and a \<open>value\<close> key, and skips every other item; the store hashes the name,
  so a list in which such an item has a name that cannot be hashed (a list or a
  dictionary) makes it raise \<open>TypeError\<close>. When it returns, a key maps to the value of
  the last item with that name, the keys are the names of the items that pass the shape
  check, and no key occurs twice.
\<close>

theorem extract_parameters_spec:
  "extract_parameters v =
     (case v of
        PList items \<Rightarrow>
          if \<exists>item \<in> set items. unhashable_name item then Inl TypeError
          else Inr (store_all (entries items) [])
      | _ \<Rightarrow> Inr []) \<and>
   (extract_parameters (PList items) = Inr m \<longrightarrow>
      map_of m = map_of (rev (entries items)) \<and>
      fst ` set m = fst ` set (entries items) \<and>
      distinct (map fst m))"
proof -
  have "extract_parameters v =
     (case v of
        PList items \<Rightarrow>
          if \<exists>item \<in> set items. unhashable_name item then Inl TypeError
          else Inr (store_all (entries items) [])
      | _ \<Rightarrow> Inr [])"
    by (cases v) (simp_all add: extract_loop_cases)
  moreover have "map_of m = map_of (rev (entries items)) \<and>
      fst ` set m = fst ` set (entries items) \<and> distinct (map fst m)"
    if "extract_parameters (PList items) = Inr m"
  proof -
    from that have "m = store_all (entries items) []"
      by (simp add: extract_loop_cases split: if_splits)
    then show ?thesis
      by (simp add: map_of_store_all keys_store_all distinct_store_all)
  qed
  ultimately show ?thesis by blast
qed

theorem extract_parameters_spec_witness:
  "extract_parameters (PList
     [PDict [(KStr ''name'', PStr ''a''), (KStr ''value'', PStr ''1'')],
      PInt 7,
      PDict [(KStr ''name'', PStr ''b'')],
      PDict [(KStr ''name'', PStr ''b''), (KStr ''value'', PStr ''2'')],
      PDict [(KStr ''name'', PStr ''a''), (KStr ''value'', PStr ''3'')]]) =
     Inr [(KStr ''a'', PStr ''3''), (KStr ''b'', PStr ''2'')] \<and>
   map_of [(KStr ''a'', PStr ''3''), (KStr ''b'', PStr ''2'')] =
     map_of (rev [(KStr ''a'', PStr ''1''), (KStr ''b'', PStr ''2''), (KStr ''a'', PStr ''3'')]) \<and>
   extract_parameters (PStr ''abc'') = Inr []"
  using extract_parameters_spec [of "PList
     [PDict [(KStr ''name'', PStr ''a''), (KStr ''value'', PStr ''1'')],
      PInt 7,
      PDict [(KStr ''name'', PStr ''b'')],
      PDict [(KStr ''name'', PStr ''b''), (KStr ''value'', PStr ''2'')],
      PDict [(KStr ''name'', PStr ''a''), (KStr ''value'', PStr ''3'')]]"
     "[PDict [(KStr ''name'', PStr ''a''), (KStr ''value'', PStr ''1'')],
      PInt 7,
      PDict [(KStr ''name'', PStr ''b'')],
      PDict [(KStr ''name'', PStr ''b''), (KStr ''value'', PStr ''2'')],
      PDict [(KStr ''name'', PStr ''a''), (KStr ''value'', PStr ''3'')]]"
     "[(KStr ''a'', PStr ''3''), (KStr ''b'', PStr ''2'')]"]
    extract_parameters_spec [of "PStr ''abc''"]
  by (simp add: entries_def entry_def item_pair_def unhashable_name_def)

text \<open>
  An item that passes the shape check with a list as its name: the extractor raises
  instead of returning a mapping.
\<close>

theorem extract_parameters_unhashable_counterexample:
  "extract_parameters (PList [PDict [(KStr ''name'', PList []), (KStr ''value'', PStr ''x'')]]) =
     Inl TypeError"
  by (simp add: dict_has_def dict_item_def dict_store_def)

section \<open>The validator\<close>

text \<open>
  C3. \<open>validate_required_params\<close> raises exactly when some required key is absent from
  the parameter map or maps to a falsy value. It then raises \<open>ValueError\<close> with the
  message \<open>Missing required parameters: \<close> followed by the offending keys, joined by
  a comma and a space, in the order of the required list; otherwise it returns \<open>None\<close>.
\<close>

theorem validate_required_params_spec:
  "((\<exists>e. validate_required_params params required = Inl e) =
      (\<exists>k \<in> set required. offending params k)) \<and>
   validate_required_params params required =
     (if \<exists>k \<in> set required. offending params k
      then Inl (ValueError (''Missing required parameters: '' @
                  join '', '' (filter (offending params) required)))
      else Inr ())"
  by (simp add: validate_required_params_cases)

theorem validate_required_params_spec_witness:
  "validate_required_params
     [(KStr ''a'', PStr ''x''), (KStr ''b'', PStr ''''), (KStr ''d'', PInt 0)]
     [''a'', ''b'', ''c'', ''d''] = Inl (ValueError ''Missing required parameters: b, c, d'') \<and>
   validate_required_params [(KStr ''a'', PStr ''x'')] [''a''] = Inr ()"
  using
    validate_required_params_spec
      [of "[(KStr ''a'', PStr ''x''), (KStr ''b'', PStr ''''), (KStr ''d'', PInt 0)]"
          "[''a'', ''b'', ''c'', ''d'']"]
    validate_required_params_spec [of "[(KStr ''a'', PStr ''x'')]" "[''a'']"]
  by (simp add: offending_def)

section \<open>The router\<close>

text \<open>
  C4, as the code has it. When \<open>route_function_call\<close> is called with \<open>find_baggage\<close> and
  a parameter map in which both required keys are offending, it raises \<open>ValueError\<close>
  and the message lists \<open>phoneNumber\<close> first and \<open>flightNumber\<close> second: the order of
  the list the router passes to the validator.
\<close>

theorem find_baggage_missing_order:
  "offending params ''flightNumber'' \<Longrightarrow> offending params ''phoneNumber'' \<Longrightarrow>
   route_function_call fmt (PStr ''find_baggage'') params =
     Inl (ValueError ''Missing required parameters: phoneNumber, flightNumber'')"
  by (simp add: route_function_call_def validate_required_params_cases)

theorem find_baggage_missing_order_witness:
  "route_function_call sample_fmt (PStr ''find_baggage'') [(KStr ''flightNumber'', PStr '''')] =
     Inl (ValueError ''Missing required parameters: phoneNumber, flightNumber'')"
  using find_baggage_missing_order [of "[(KStr ''flightNumber'', PStr '''')]" sample_fmt]
  by (simp add: offending_def)

text \<open>
  With no parameters at all the message is not in the order \<open>flightNumber\<close>,
  \<open>phoneNumber\<close> of the table of required keys.
\<close>

theorem find_baggage_documented_order_counterexample:
  "route_function_call sample_fmt (PStr ''find_baggage'') [] =
     Inl (ValueError ''Missing required parameters: phoneNumber, flightNumber'') \<and>
   route_function_call sample_fmt (PStr ''find_baggage'') [] \<noteq>
     Inl (ValueError ''Missing required parameters: flightNumber, phoneNumber'')"
  by (simp add: route_function_call_def validate_required_params_def dict_get_def)

text \<open>
  C6. For a function name that is a string other than the four supported names, and
  any parameter map, \<open>route_function_call\<close> raises \<open>ValueError\<close>; the message names the
  function and lists the four supported names, joined by a comma and a space, in the
  order the enumeration declares them.
\<close>

theorem route_unsupported:
  "name \<notin> {''find_baggage'', ''check_flight_status'', ''book_flight'', ''cancel_reservation''} \<Longrightarrow>
   route_function_call fmt (PStr name) params =
     Inl (ValueError (''Unsupported function: '' @ name @
       ''. Supported: find_baggage, check_flight_status, book_flight, cancel_reservation''))"
  by (simp add: route_function_call_def enum_members_def py_str_def)

theorem route_unsupported_witness:
  "route_function_call sample_fmt (PStr ''lost_luggage'') [] =
     Inl (ValueError ''Unsupported function: lost_luggage. Supported: find_baggage, check_flight_status, book_flight, cancel_reservation'')"
  using route_unsupported [of "''lost_luggage''" sample_fmt "[]"] by simp

text \<open>
  C8. When \<open>route_function_call\<close> is called with \<open>book_flight\<close> and a parameter map
  holding truthy values for the five required keys, it returns a string that contains
  the confirmation code \<open>ABC123\<close> and the rendering of each of the five values (for a
  string, the string itself).
\<close>

theorem book_flight_result:
  assumes "map_of params (KStr ''departureCity'') = Some v1" "truthy v1"
    and "map_of params (KStr ''arrivalCity'') = Some v2" "truthy v2"
    and "map_of params (KStr ''departureDate'') = Some v3" "truthy v3"
    and "map_of params (KStr ''passengerName'') = Some v4" "truthy v4"
    and "map_of params (KStr ''phoneNumber'') = Some v5" "truthy v5"
  shows "\<exists>s. route_function_call fmt (PStr ''book_flight'') params = Inr s \<and>
           sublist ''ABC123'' s \<and>
           sublist (py_str fmt v1) s \<and> sublist (py_str fmt v2) s \<and> sublist (py_str fmt v3) s \<and>
           sublist (py_str fmt v4) s \<and> sublist (py_str fmt v5) s"
proof -
  have "validate_required_params params
     [''departureCity'', ''arrivalCity'', ''departureDate'', ''passengerName'', ''phoneNumber''] = Inr ()"
    using assms by (simp add: validate_required_params_cases present_truthy)
  from route_book_flight [OF this, of fmt]
  have "route_function_call fmt (PStr ''book_flight'') params = Inr (book_flight fmt v1 v2 v3 v4 v5)"
    using assms by (auto simp: present_item)
  then show ?thesis
    by (simp add: book_flight_contains)
qed

theorem book_flight_result_witness:
  "\<exists>s. route_function_call sample_fmt (PStr ''book_flight'')
          [(KStr ''departureCity'', PStr ''Lusaka''), (KStr ''arrivalCity'', PStr ''Nairobi''),
           (KStr ''departureDate'', PStr ''2024-05-01''), (KStr ''passengerName'', PStr ''Ada''),
           (KStr ''phoneNumber'', PStr ''555-1234'')] = Inr s \<and>
        sublist ''ABC123'' s \<and> sublist ''Lusaka'' s \<and> sublist ''Nairobi'' s \<and>
        sublist ''2024-05-01'' s \<and> sublist ''Ada'' s \<and> sublist ''555-1234'' s"
  using book_flight_result [of
      "[(KStr ''departureCity'', PStr ''Lusaka''), (KStr ''arrivalCity'', PStr ''Nairobi''),
           (KStr ''departureDate'', PStr ''2024-05-01''), (KStr ''passengerName'', PStr ''Ada''),
           (KStr ''phoneNumber'', PStr ''555-1234'')]"
      "PStr ''Lusaka''" "PStr ''Nairobi''" "PStr ''2024-05-01''" "PStr ''Ada''" "PStr ''555-1234''"
      sample_fmt]
  by (simp add: py_str_def)

text \<open>
  C9. Whenever \<open>validate_required_params\<close> returns normally, every key of the list it
  was given can be read from the parameter map by subscript. In each of the four
  branches of \<open>route_function_call\<close> the keys read after the validation are among the
  keys validated: when the validation of the branch returns normally, every subscript
  succeeds and the branch returns the result of its handler. So the router never raises
  \<open>KeyError\<close>, whatever the function name and the parameter map.
\<close>

theorem validated_keys_present:
  "(validate_required_params params required = Inr () \<longrightarrow>
      (\<forall>k \<in> set required. \<exists>v. dict_item params k = Inr v)) \<and>
   (validate_required_params params [''phoneNumber'', ''flightNumber''] = Inr () \<longrightarrow>
      (\<exists>a1 a2. dict_item params ''flightNumber'' = Inr a1 \<and>
         dict_item params ''phoneNumber'' = Inr a2 \<and>
         route_function_call fmt (PStr ''find_baggage'') params = Inr (find_baggage fmt a1 a2))) \<and>
   (validate_required_params params [''flightNumber''] = Inr () \<longrightarrow>
      (\<exists>a1. dict_item params ''flightNumber'' = Inr a1 \<and>
         route_function_call fmt (PStr ''check_flight_status'') params =
           Inr (check_flight_status fmt a1))) \<and>
   (validate_required_params params
      [''departureCity'', ''arrivalCity'', ''departureDate'', ''passengerName'', ''phoneNumber''] =
        Inr () \<longrightarrow>
      (\<exists>a1 a2 a3 a4 a5.
         dict_item params ''departureCity'' = Inr a1 \<and> dict_item params ''arrivalCity'' = Inr a2 \<and>
         dict_item params ''departureDate'' = Inr a3 \<and>
         dict_item params ''passengerName'' = Inr a4 \<and> dict_item params ''phoneNumber'' = Inr a5 \<and>
         route_function_call fmt (PStr ''book_flight'') params =
           Inr (book_flight fmt a1 a2 a3 a4 a5))) \<and>
   (validate_required_params params [''confirmationCode'', ''phoneNumber''] = Inr () \<longrightarrow>
      (\<exists>a1 a2. dict_item params ''confirmationCode'' = Inr a1 \<and>
         dict_item params ''phoneNumber'' = Inr a2 \<and>
         route_function_call fmt (PStr ''cancel_reservation'') params =
           Inr (cancel_reservation fmt a1 a2))) \<and>
   route_function_call fmt function_name params \<noteq> Inl (KeyError k)"
proof -
  have "\<forall>k \<in> set required. \<exists>v. dict_item params k = Inr v"
    if "validate_required_params params required = Inr ()"
    using that by (auto simp: validate_required_params_cases split: if_splits dest: not_offending_item)
  then show ?thesis
    using route_find_baggage [of params fmt] route_check_flight_status [of params fmt]
      route_book_flight [of params fmt] route_cancel_reservation [of params fmt]
      route_never_KeyError [of fmt function_name params k]
    by blast
qed

theorem validated_keys_present_witness:
  "validate_required_params [(KStr ''confirmationCode'', PStr ''XYZ9''), (KStr ''phoneNumber'', PStr ''555-0000'')]
     [''confirmationCode'', ''phoneNumber''] = Inr () \<and>
   dict_item [(KStr ''confirmationCode'', PStr ''XYZ9''), (KStr ''phoneNumber'', PStr ''555-0000'')]
     ''confirmationCode'' = Inr (PStr ''XYZ9'') \<and>
   dict_item [(KStr ''confirmationCode'', PStr ''XYZ9''), (KStr ''phoneNumber'', PStr ''555-0000'')]
     ''phoneNumber'' = Inr (PStr ''555-0000'') \<and>
   route_function_call sample_fmt (PStr ''cancel_reservation'')
     [(KStr ''confirmationCode'', PStr ''XYZ9''), (KStr ''phoneNumber'', PStr ''555-0000'')] =
     Inr (cancel_reservation sample_fmt (PStr ''XYZ9'') (PStr ''555-0000'')) \<and>
   route_function_call sample_fmt (PStr ''find_baggage'')
     [(KStr ''confirmationCode'', PStr ''XYZ9''), (KStr ''phoneNumber'', PStr ''555-0000'')] \<noteq>
     Inl (KeyError ''flightNumber'')"
  using validated_keys_present [of
      "[(KStr ''confirmationCode'', PStr ''XYZ9''), (KStr ''phoneNumber'', PStr ''555-0000'')]"
      "[''confirmationCode'', ''phoneNumber'']" sample_fmt "PStr ''find_baggage''" "''flightNumber''"]
  by (auto simp: validate_required_params_cases offending_def dict_item_def)

section \<open>The response builder\<close>

text \<open>
  C7. \<open>create_response\<close> is a function of its three arguments and builds exactly the
  dictionary with the keys \<open>response\<close> and \<open>messageVersion\<close>, the latter 1, the former
  holding \<open>actionGroup\<close>, \<open>function\<close> and the body under \<open>functionResponse\<close>,
  \<open>responseBody\<close>, \<open>TEXT\<close>, \<open>body\<close>. The action group, the function and the body
  are stored as given, whatever they are, and are read back unchanged. An event that
  holds an action group and a function gets them back unchanged in the envelope of
  \<open>lambda_handler\<close>, whether the call succeeds or fails.
\<close>

theorem create_response_shape:
  "create_response ag f body =
     PDict [
       (KStr ''response'', PDict [
          (KStr ''actionGroup'', ag),
          (KStr ''function'', f),
          (KStr ''functionResponse'', PDict [
             (KStr ''responseBody'', PDict [
                (KStr ''TEXT'', PDict [(KStr ''body'', body)])])])]),
       (KStr ''messageVersion'', PInt 1)] \<and>
   get_path (create_response ag f body) [''response'', ''actionGroup''] = Inr ag \<and>
   get_path (create_response ag f body) [''response'', ''function''] = Inr f \<and>
   get_path (create_response ag f body)
     [''response'', ''functionResponse'', ''responseBody'', ''TEXT'', ''body''] = Inr body \<and>
   get_path (create_response ag f body) [''messageVersion''] = Inr (PInt 1) \<and>
   (map_of d (KStr ''actionGroup'') = Some ag \<longrightarrow> map_of d (KStr ''function'') = Some f \<longrightarrow>
      (\<exists>text. lambda_handler fmt (PDict d) ctx = Inr (create_response ag f (PStr text))))"
  by (simp add: create_response_def dict_item_def lambda_handler_mapping mirrored_def dict_get_def)

theorem create_response_shape_witness:
  "(\<exists>text. lambda_handler sample_fmt
      (PDict [(KStr ''actionGroup'', PStr ''Baggage''), (KStr ''function'', PStr ''teleport''),
              (KStr ''agent'', PNone)]) () =
      Inr (create_response (PStr ''Baggage'') (PStr ''teleport'') (PStr text))) \<and>
   (\<exists>text. lambda_handler sample_fmt
      (PDict [(KStr ''actionGroup'', PStr ''Baggage''), (KStr ''function'', PStr ''check_flight_status''),
              (KStr ''agent'', PNone),
              (KStr ''parameters'', PList [PDict [(KStr ''name'', PStr ''flightNumber''),
                 (KStr ''value'', PStr ''DL42'')]])]) () =
      Inr (create_response (PStr ''Baggage'') (PStr ''check_flight_status'') (PStr text)))"
  using
    create_response_shape [of "PStr ''Baggage''" "PStr ''teleport''" PNone
      "[(KStr ''actionGroup'', PStr ''Baggage''), (KStr ''function'', PStr ''teleport''),
              (KStr ''agent'', PNone)]" sample_fmt "()"]
    create_response_shape [of "PStr ''Baggage''" "PStr ''check_flight_status''" PNone
      "[(KStr ''actionGroup'', PStr ''Baggage''), (KStr ''function'', PStr ''check_flight_status''),
              (KStr ''agent'', PNone),
              (KStr ''parameters'', PList [PDict [(KStr ''name'', PStr ''flightNumber''),
                 (KStr ''value'', PStr ''DL42'')]])]" sample_fmt "()"]
  by simp

section \<open>The entry point\<close>

text \<open>
  C1, as the code has it. For every event that is a mapping, and every context,
  \<open>lambda_handler\<close> returns a response envelope and raises nothing. The envelope carries
  the action group and the function of the event (\<open>unknown\<close> for one the event lacks);
  its body is the text of the operation when the field extraction, the parameter
  extraction and the routing all succeed, and otherwise the error body of the first
  failure among them.
\<close>

theorem lambda_handler_envelope:
  "lambda_handler fmt (PDict d) ctx =
     Inr (create_response (dict_get d ''actionGroup'' (PStr ''unknown''))
            (dict_get d ''function'' (PStr ''unknown''))
            (PStr (case handler_steps fmt d of Inl e \<Rightarrow> error_body e | Inr s \<Rightarrow> s)))"
  using lambda_handler_mapping [of fmt d ctx] by (simp add: mirrored_def)

theorem lambda_handler_envelope_witness:
  "lambda_handler sample_fmt
     (PDict [(KStr ''actionGroup'', PStr ''Baggage''), (KStr ''function'', PStr ''find_baggage''),
             (KStr ''agent'', PStr ''a1'')]) () =
     Inr (create_response (PStr ''Baggage'') (PStr ''find_baggage'')
            (PStr ''Validation error: Missing required parameters: phoneNumber, flightNumber. Please check your input and try again.''))"
  using lambda_handler_envelope [of sample_fmt
      "[(KStr ''actionGroup'', PStr ''Baggage''), (KStr ''function'', PStr ''find_baggage''),
        (KStr ''agent'', PStr ''a1'')]" "()"]
  by (simp add: handler_steps_def dict_item_def dict_get_def route_function_call_def
      validate_required_params_def error_body_def)

text \<open>
  An event that is not a mapping (\<open>None\<close>, a list, a string): the subscript raises
  \<open>TypeError\<close>, the last \<open>except\<close> clause catches it, and its \<open>event.get\<close> raises
  \<open>AttributeError\<close>, which leaves the handler.
\<close>

theorem lambda_handler_not_mapping_counterexample:
  "lambda_handler sample_fmt PNone () = Inl AttributeError \<and>
   lambda_handler sample_fmt (PList []) () = Inl AttributeError \<and>
   lambda_handler sample_fmt (PStr ''find_baggage'') () = Inl AttributeError"
  by (simp add: lambda_handler_def handler_try_def error_response_def)

text \<open>
  C2, as the code has it. For an event that is a mapping and lacks at least one of the
  fields \<open>actionGroup\<close>, \<open>function\<close> and \<open>agent\<close>, \<open>lambda_handler\<close> returns the
  envelope whose body is \<open>Missing required field: \<close>, the name of the first absent
  field in that order, in single quotes, and \<open>. Please contact IT support.\<close> The
  action group and the function of the envelope are those of the event, and \<open>unknown\<close>
  for one that is absent.
\<close>

theorem missing_field_body:
  "filter (\<lambda>k. \<not> dict_has d k) [''actionGroup'', ''function'', ''agent''] = k # ks \<Longrightarrow>
   lambda_handler fmt (PDict d) ctx =
     Inr (create_response (dict_get d ''actionGroup'' (PStr ''unknown''))
            (dict_get d ''function'' (PStr ''unknown''))
            (PStr (''Missing required field: '' @ [CHR 0x27] @ k @ [CHR 0x27] @
                   ''. Please contact IT support.'')))"
  using lambda_handler_mapping [of fmt d ctx]
  by (simp add: handler_steps_missing mirrored_def error_body_def str_KeyError_def)

theorem missing_field_body_witness:
  "lambda_handler sample_fmt (PDict [(KStr ''function'', PStr ''book_flight'')]) () =
     Inr (create_response (PStr ''unknown'') (PStr ''book_flight'')
            (PStr (''Missing required field: '' @ [CHR 0x27] @ ''actionGroup'' @ [CHR 0x27] @
                   ''. Please contact IT support.'')))"
  using missing_field_body [of "[(KStr ''function'', PStr ''book_flight'')]" "''actionGroup''"
      "[''agent'']" sample_fmt "()"]
  by (simp add: dict_has_def dict_get_def)

text \<open>
  An event without \<open>function\<close>: the body has the field's name in single quotes, so it
  is not the body with the bare name.
\<close>

theorem missing_field_unquoted_counterexample:
  "lambda_handler sample_fmt
     (PDict [(KStr ''actionGroup'', PStr ''baggage''), (KStr ''agent'', PStr ''a'')]) () =
     Inr (create_response (PStr ''baggage'') (PStr ''unknown'')
            (PStr (''Missing required field: '' @ [CHR 0x27] @ ''function'' @ [CHR 0x27] @
                   ''. Please contact IT support.''))) \<and>
   lambda_handler sample_fmt
     (PDict [(KStr ''actionGroup'', PStr ''baggage''), (KStr ''agent'', PStr ''a'')]) () \<noteq>
     Inr (create_response (PStr ''baggage'') (PStr ''unknown'')
            (PStr ''Missing required field: function. Please contact IT support.''))"
  by (simp add: lambda_handler_def handler_try_def error_response_def dict_item_def dict_get_def
      str_KeyError_def create_response_def)

text \<open>
  C10. For every event that is a mapping, and every context, \<open>lambda_handler\<close> returns
  an envelope, the result of \<open>create_response\<close> on the action group and the function
  read from the event (\<open>unknown\<close> where the event has none) and a body that is a
  string: no exception leaves it. Every exception the \<open>try\<close> block raises is caught by
  one of the \<open>except\<close> clauses and answered with the envelope that carries its error
  body. The error path, which reads the event with \<open>get\<close> and a default only, returns
  the envelope of its message, for every message. (Every function of the model is total,
  so the handler terminates.)
\<close>

theorem lambda_handler_total_on_mapping:
  "(\<exists>body. lambda_handler fmt (PDict d) ctx =
      Inr (create_response (dict_get d ''actionGroup'' (PStr ''unknown''))
             (dict_get d ''function'' (PStr ''unknown'')) (PStr body))) \<and>
   (handler_try fmt (PDict d) = Inl e \<longrightarrow>
      lambda_handler fmt (PDict d) ctx =
        Inr (create_response (dict_get d ''actionGroup'' (PStr ''unknown''))
               (dict_get d ''function'' (PStr ''unknown'')) (PStr (error_body e)))) \<and>
   error_response (PDict d) msg =
     Inr (create_response (dict_get d ''actionGroup'' (PStr ''unknown''))
            (dict_get d ''function'' (PStr ''unknown'')) (PStr msg))"
proof -
  have "\<exists>body. lambda_handler fmt (PDict d) ctx =
      Inr (create_response (dict_get d ''actionGroup'' (PStr ''unknown''))
             (dict_get d ''function'' (PStr ''unknown'')) (PStr body))"
    unfolding lambda_handler_mapping mirrored_def by (rule exI) (rule refl)
  moreover have "lambda_handler fmt (PDict d) ctx =
        Inr (create_response (dict_get d ''actionGroup'' (PStr ''unknown''))
               (dict_get d ''function'' (PStr ''unknown'')) (PStr (error_body e)))"
    if "handler_try fmt (PDict d) = Inl e"
    using that by (simp add: lambda_handler_error error_response_mapping mirrored_def)
  moreover have "error_response (PDict d) msg =
     Inr (create_response (dict_get d ''actionGroup'' (PStr ''unknown''))
            (dict_get d ''function'' (PStr ''unknown'')) (PStr msg))"
    by (simp add: error_response_mapping mirrored_def)
  ultimately show ?thesis by blast
qed

theorem lambda_handler_total_on_mapping_witness:
  "handler_try sample_fmt (PDict [(KStr ''function'', PList []), (KStr ''parameters'', PInt 3)]) =
     Inl (KeyError ''actionGroup'') \<and>
   lambda_handler sample_fmt (PDict [(KStr ''function'', PList []), (KStr ''parameters'', PInt 3)]) () =
     Inr (create_response (PStr ''unknown'') (PList [])
            (PStr (''Missing required field: '' @ [CHR 0x27] @ ''actionGroup'' @ [CHR 0x27] @
                   ''. Please contact IT support.''))) \<and>
   error_response (PDict [(KStr ''function'', PList []), (KStr ''parameters'', PInt 3)])
     ''An unexpected error occurred. Please contact IT support.'' =
     Inr (create_response (PStr ''unknown'') (PList [])
            (PStr ''An unexpected error occurred. Please contact IT support.''))"
  using lambda_handler_total_on_mapping [of sample_fmt
      "[(KStr ''function'', PList []), (KStr ''parameters'', PInt 3)]" "()"
      "KeyError ''actionGroup''" "''An unexpected error occurred. Please contact IT support.''"]
  by (simp add: handler_try_def dict_item_def dict_get_def error_body_def str_KeyError_def)

end
